theory Spec2Isabelle
  imports Main "HOL-Library.Word"
begin

section \<open>TokenManager: token renewal and its TLS trust configuration\<close>

text \<open>
  A shallow embedding of \<^verbatim>\<open>token.go\<close>. The program talks to the operating system
  (\<^verbatim>\<open>os.Stat\<close>, \<^verbatim>\<open>ioutil.ReadFile\<close>, \<^verbatim>\<open>ioutil.ReadDir\<close>, \<^verbatim>\<open>ioutil.WriteFile\<close>), to the
  network (\<^verbatim>\<open>client.Do\<close>) and to Go's standard library (PEM and JSON decoding). What
  these return is held in a record \<open>world\<close>, which every function takes and the
  ones that change it return updated. What a function writes with \<^verbatim>\<open>log.Printf\<close> and
  \<^verbatim>\<open>log.Println\<close> is returned as a list of log events. \<^verbatim>\<open>log.Fatal\<close> ends the process:
  a function that may call it returns a sum whose left injection is the fatal error.
\<close>

subsection \<open>Data\<close>

type_synonym cert = string

text \<open>\<^verbatim>\<open>tls.Config\<close>, the two fields the program sets. \<open>RootCAs = None\<close> is Go's nil
  pool: the host's root CA set.\<close>

record tls_config =
  InsecureSkipVerify :: bool
  RootCAs :: "cert list option"

record transport =
  TLSClientConfig :: tls_config

text \<open>\<^verbatim>\<open>http.Client\<close>; \<open>ClientTransport = None\<close> is the zero client \<^verbatim>\<open>&http.Client{}\<close>,
  which uses \<^verbatim>\<open>http.DefaultTransport\<close>.\<close>

record http_client =
  ClientTransport :: "transport option"

record request =
  Method :: string
  URL :: string
  Header :: "string \<rightharpoonup> string list"

text \<open>A response as the program reads it: what \<^verbatim>\<open>ioutil.ReadAll(resp.Body)\<close> returns.\<close>

record response =
  Body :: string
  Body_err :: "string option"

record TokenRecord =
  AccessToken :: string
  AccessTokenExpire :: "64 word"
  RefreshToken :: string
  RefreshTokenExpire :: "64 word"
  IdToken :: string

datatype json =
    JNull
  | JBool bool
  | JInt int
  | JReal string
  | JString string
  | JArray "json list"
  | JObject "(string \<times> json) list"

datatype log_event =
    Log_renew string string string
  | Log_request string
  | Log_response string
  | Log_printf string
  | Log_unable_to_read string
  | Log_invalid_PEM string
  | Log_load_CA_file string
  | Log_new_token_record TokenRecord
  | Println_read_CAs string

datatype fatal =
    Fatal_read_token string string
  | Fatal_error string
  | Fatal_http_request request string
  | Fatal_write string string

text \<open>
  The world. The first group is what the operating system and the libraries answer
  (an error is \<open>Some\<close> text, \<open>None\<close> is Go's \<^verbatim>\<open>err == nil\<close>); \<open>Do\<close> sees the exchanges made
  so far, so a server may answer each renewal differently. The second group is what
  the program leaves behind: the requests it sent, with the client that sent each,
  and how long it slept.
\<close>

record world =
  Stat :: "string \<Rightarrow> string option"
  ReadFile :: "string \<Rightarrow> string \<times> string option"
  ReadDir :: "string \<Rightarrow> string list \<times> string option"
  WriteFile_err :: "string \<Rightarrow> string option"
  PEM_certs :: "string \<Rightarrow> cert list"
  NewRequest_err :: "string \<Rightarrow> string option"
  DumpRequestOut :: "request \<Rightarrow> string \<times> string option"
  Do :: "(http_client \<times> request) list \<Rightarrow> http_client \<Rightarrow> request \<Rightarrow> string + response"
  DumpResponse :: "response \<Rightarrow> string \<times> string option"
  JSON_parse :: "string \<Rightarrow> string + json"
  sent :: "(http_client \<times> request) list"
  slept :: "int list"

definition LF :: char where
  "LF = CHR 0x0A"

subsection \<open>ReadToken\<close>

text \<open>\<^verbatim>\<open>strings.Replace(s, old, new, -1)\<close> for a non-empty \<open>old\<close>: every non-overlapping
  occurrence, left to right. The program's one call has \<open>old = "\n"\<close> and an empty
  \<open>new\<close>. (For an empty \<open>old\<close> Go puts \<open>new\<close> around every rune, which is \<open>s\<close> again
  when \<open>new\<close> is empty; the last equation is right for that case only.)\<close>

function Replace :: "string \<Rightarrow> string \<Rightarrow> string \<Rightarrow> string" where
  "Replace [] (c # old) new = []"
| "Replace (x # s) (c # old) new =
     (if take (Suc (length old)) (x # s) = c # old
      then new @ Replace (drop (length old) s) (c # old) new
      else x # Replace s (c # old) new)"
| "Replace s [] new = s"
  by pat_completeness auto
termination
  by (relation "measure (\<lambda>(s, old, new). length s)") auto

definition ReadToken :: "world \<Rightarrow> string \<Rightarrow> fatal + string" where
  "ReadToken w r =
     (if Stat w r = None then
        (case ReadFile w r of
           (b, Some e) \<Rightarrow> Inl (Fatal_read_token r e)
         | (b, None) \<Rightarrow> Inr (Replace b [LF] []))
      else Inr r)"

subsection \<open>Transport\<close>

text \<open>\<^verbatim>\<open>CertPool.AddCert\<close> keeps one copy of a certificate.\<close>

definition AddCert :: "cert list \<Rightarrow> cert \<Rightarrow> cert list" where
  "AddCert pool c = (if c \<in> set pool then pool else pool @ [c])"

text \<open>\<^verbatim>\<open>CertPool.AppendCertsFromPEM\<close>: adds every certificate decoded from the data and
  reports whether there was one.\<close>

definition AppendCertsFromPEM :: "world \<Rightarrow> cert list \<Rightarrow> string \<Rightarrow> cert list \<times> bool" where
  "AppendCertsFromPEM w pool pemCerts =
     (foldl AddCert pool (PEM_certs w pemCerts), PEM_certs w pemCerts \<noteq> [])"

text \<open>The body of \<^verbatim>\<open>for _, finfo := range files\<close>, over what the loop changes: the log,
  the pool and the flag \<^verbatim>\<open>certs\<close>.\<close>

fun Transport_files ::
  "world \<Rightarrow> string \<Rightarrow> int \<Rightarrow> string list \<Rightarrow> log_event list \<times> cert list \<times> bool
     \<Rightarrow> log_event list \<times> cert list \<times> bool" where
  "Transport_files w rootCAs verbose [] st = st"
| "Transport_files w rootCAs verbose (finfo # files) (lg, certPool, certs) =
     (let fname = rootCAs @ ''/'' @ finfo;
          (caCert, err) = ReadFile w fname;
          lg1 = (if err \<noteq> None \<and> verbose > 1 then lg @ [Log_unable_to_read fname] else lg);
          (certPool', ok) = AppendCertsFromPEM w certPool caCert;
          lg2 = (if \<not> ok \<and> verbose > 2 then lg1 @ [Log_invalid_PEM fname] else lg1);
          lg3 = (if verbose > 2 then lg2 @ [Log_load_CA_file fname] else lg2)
      in Transport_files w rootCAs verbose files (lg3, certPool', True))"

text \<open>The result is Go's pair \<^verbatim>\<open>(*http.Transport, error)\<close>, \<open>None\<close> for \<^verbatim>\<open>nil\<close>, after what
  was logged.\<close>

definition Transport ::
  "world \<Rightarrow> string \<Rightarrow> int \<Rightarrow> log_event list \<times> transport option \<times> string option" where
  "Transport w rootCAs verbose =
     (case ReadDir w rootCAs of
        (files, Some err) \<Rightarrow>
          (let msg = (if rootCAs = [] then ''root CAs area is not provided''
                      else ''Unable to list files in '' @ [CHR 0x27] @ rootCAs @ [CHR 0x27]
                           @ '', error: '' @ err @ [LF])
           in ([Log_printf msg], None, Some msg))
      | (files, None) \<Rightarrow>
          (let (lg, certPool, certs) = Transport_files w rootCAs verbose files ([], [], False);
               mTLSConfig = (if certs then \<lparr>InsecureSkipVerify = False, RootCAs = Some certPool\<rparr>
                             else \<lparr>InsecureSkipVerify = True, RootCAs = None\<rparr>)
           in (lg, Some \<lparr>TLSClientConfig = mTLSConfig\<rparr>, None)))"

subsection \<open>Decoding the response\<close>

text \<open>
  \<^verbatim>\<open>json.Unmarshal(data, &rec)\<close> into a \<open>TokenRecord\<close>. Reading the text into a JSON
  value is the library's (\<open>JSON_parse\<close>, which fails on malformed text); storing the
  value into the struct follows the tags of the struct's declaration and the
  documented rules of \<^verbatim>\<open>encoding/json\<close>: an object key is matched to a field by its
  name, ignoring case; an unknown key is skipped; \<^verbatim>\<open>null\<close> leaves a field as it is; a
  value of another JSON type than the field's, or an integer outside \<^verbatim>\<open>int64\<close>, is an
  error; a top-level value other than an object or \<^verbatim>\<open>null\<close> is an error. \<open>JInt\<close> is a
  number written without fraction and exponent, \<open>JReal\<close> any other number.
\<close>

datatype field = F_access_token | F_expires_in | F_refresh_token | F_refresh_expires_in | F_id_token

definition upper :: "char \<Rightarrow> char" where
  "upper c = (let n = (of_char c :: nat) in if 97 \<le> n \<and> n \<le> 122 then char_of (n - 32) else c)"

text \<open>The library's case folding of a name, on UTF-8 bytes: ASCII letters to upper
  case, the Kelvin sign (E2 84 AA) to K and the long s (C5 BF) to S.\<close>

fun foldName :: "string \<Rightarrow> string" where
  "foldName (a # b # c # s) =
     (if [a, b, c] = [CHR 0xE2, CHR 0x84, CHR 0xAA] then CHR ''K'' # foldName s
      else if [a, b] = [CHR 0xC5, CHR 0xBF] then CHR ''S'' # foldName (c # s)
      else upper a # foldName (b # c # s))"
| "foldName [a, b] =
     (if [a, b] = [CHR 0xC5, CHR 0xBF] then [CHR ''S''] else upper a # foldName [b])"
| "foldName [a] = [upper a]"
| "foldName [] = []"

definition field_of_key :: "string \<Rightarrow> field option" where
  "field_of_key k =
     (let n = foldName k in
      if n = ''ACCESS_TOKEN'' then Some F_access_token
      else if n = ''EXPIRES_IN'' then Some F_expires_in
      else if n = ''REFRESH_TOKEN'' then Some F_refresh_token
      else if n = ''REFRESH_EXPIRES_IN'' then Some F_refresh_expires_in
      else if n = ''ID_TOKEN'' then Some F_id_token
      else None)"

definition int64_range :: "int \<Rightarrow> bool" where
  "int64_range i \<longleftrightarrow> - (2 ^ 63) \<le> i \<and> i < 2 ^ 63"

fun set_field :: "TokenRecord \<Rightarrow> field \<Rightarrow> json \<Rightarrow> TokenRecord option" where
  "set_field rec f JNull = Some rec"
| "set_field rec F_access_token (JString s) = Some (rec\<lparr>AccessToken := s\<rparr>)"
| "set_field rec F_refresh_token (JString s) = Some (rec\<lparr>RefreshToken := s\<rparr>)"
| "set_field rec F_id_token (JString s) = Some (rec\<lparr>IdToken := s\<rparr>)"
| "set_field rec F_expires_in (JInt i) =
     (if int64_range i then Some (rec\<lparr>AccessTokenExpire := word_of_int i\<rparr>) else None)"
| "set_field rec F_refresh_expires_in (JInt i) =
     (if int64_range i then Some (rec\<lparr>RefreshTokenExpire := word_of_int i\<rparr>) else None)"
| "set_field rec f v = None"

fun decode_object :: "(string \<times> json) list \<Rightarrow> TokenRecord \<Rightarrow> string + TokenRecord" where
  "decode_object [] rec = Inr rec"
| "decode_object ((k, v) # kvs) rec =
     (case field_of_key k of
        None \<Rightarrow> decode_object kvs rec
      | Some f \<Rightarrow>
          (case set_field rec f v of
             None \<Rightarrow> Inl (''json: cannot unmarshal into Go struct field TokenRecord.'' @ k)
           | Some rec' \<Rightarrow> decode_object kvs rec'))"

text \<open>\<^verbatim>\<open>var rec TokenRecord\<close>\<close>

definition zero_TokenRecord :: TokenRecord where
  "zero_TokenRecord =
     \<lparr>AccessToken = [], AccessTokenExpire = 0, RefreshToken = [], RefreshTokenExpire = 0,
      IdToken = []\<rparr>"

definition Unmarshal :: "world \<Rightarrow> string \<Rightarrow> string + TokenRecord" where
  "Unmarshal w data =
     (case JSON_parse w data of
        Inl e \<Rightarrow> Inl e
      | Inr JNull \<Rightarrow> Inr zero_TokenRecord
      | Inr (JObject kvs) \<Rightarrow> decode_object kvs zero_TokenRecord
      | Inr v \<Rightarrow> Inl ''json: cannot unmarshal into Go value of type main.TokenRecord'')"

subsection \<open>Renew\<close>

text \<open>The result: what was logged, the world after the call, and the record or the
  fatal error.\<close>

definition Renew ::
  "world \<Rightarrow> string \<Rightarrow> string \<Rightarrow> string \<Rightarrow> int
     \<Rightarrow> log_event list \<times> world \<times> (fatal + TokenRecord)" where
  "Renew w uri token rootCAs verbose =
     (case ReadToken w token of
        Inl f \<Rightarrow> ([], w, Inl f)
      | Inr t \<Rightarrow>
     (let lg1 = (if verbose > 1 then [Log_renew uri token t] else []) in
      case NewRequest_err w uri of
        Some e \<Rightarrow> (lg1, w, Inl (Fatal_error e))
      | None \<Rightarrow>
     (let req = \<lparr>Method = ''GET'', URL = uri,
                 Header = [''Authorization'' \<mapsto> [''Bearer '' @ t],
                           ''Accept'' \<mapsto> [''application/json'']]\<rparr>;
          lg2 = (if verbose > 0 then
                   (case DumpRequestOut w req of
                      (dump, None) \<Rightarrow> lg1 @ [Log_request dump]
                    | (dump, Some e) \<Rightarrow> lg1)
                 else lg1);
          (lgt, tr, err) = Transport w rootCAs verbose;
          lg3 = lg2 @ lgt;
          client = (if err = None then \<lparr>ClientTransport = tr\<rparr> else \<lparr>ClientTransport = None\<rparr>);
          w' = w\<lparr>sent := sent w @ [(client, req)]\<rparr>
      in case Do w (sent w) client req of
           Inl e \<Rightarrow> (lg3, w', Inl (Fatal_http_request req e))
         | Inr resp \<Rightarrow>
     (let lg4 = (if verbose > 1 then
                   (case DumpResponse w resp of
                      (dump, None) \<Rightarrow> lg3 @ [Log_response dump]
                    | (dump, Some e) \<Rightarrow> lg3)
                 else lg3)
      in case Body_err resp of
           Some e \<Rightarrow> (lg4, w', Inl (Fatal_error e))
         | None \<Rightarrow>
             (case Unmarshal w (Body resp) of
                Inl e \<Rightarrow> (lg4, w', Inl (Fatal_error e))
              | Inr rec \<Rightarrow> (lg4, w', Inr rec))))))"

subsection \<open>main\<close>

definition printRecord :: "TokenRecord \<Rightarrow> int \<Rightarrow> log_event list" where
  "printRecord rec verbose = (if verbose > 0 then [Log_new_token_record rec] else [])"

text \<open>\<^verbatim>\<open>ioutil.WriteFile\<close>: the file is created or truncated and then holds the data, which
  is what a later read of that path returns; a failure leaves the world as it was.\<close>

definition WriteFile :: "world \<Rightarrow> string \<Rightarrow> string \<Rightarrow> world \<times> string option" where
  "WriteFile w filename data =
     (case WriteFile_err w filename of
        Some e \<Rightarrow> (w, Some e)
      | None \<Rightarrow>
          (w\<lparr>Stat := (Stat w)(filename := None),
             ReadFile := (ReadFile w)(filename := (data, None))\<rparr>, None))"

text \<open>\<^verbatim>\<open>time.Sleep(time.Duration(interval) * time.Second)\<close>: the product is taken in
  \<^verbatim>\<open>int64\<close> nanoseconds.\<close>

definition Sleep :: "world \<Rightarrow> int \<Rightarrow> world" where
  "Sleep w interval =
     w\<lparr>slept := slept w @ [sint ((word_of_int interval :: 64 word) * 1000000000)]\<rparr>"

datatype outcome = Exit nat | Fatal fatal | Running TokenRecord

text \<open>One pass of the daemon's \<^verbatim>\<open>for { ... }\<close>, from the record held in memory to the
  next one.\<close>

definition loop_body ::
  "world \<Rightarrow> string \<Rightarrow> string \<Rightarrow> string \<Rightarrow> int \<Rightarrow> int \<Rightarrow> TokenRecord
     \<Rightarrow> log_event list \<times> world \<times> (fatal + TokenRecord)" where
  "loop_body w rurl out rootCAs verbose interval rec =
     (let w1 = Sleep w interval;
          rtoken = RefreshToken rec
      in case Renew w1 rurl rtoken rootCAs verbose of
           (lg, w2, Inl f) \<Rightarrow> (lg, w2, Inl f)
         | (lg, w2, Inr rec') \<Rightarrow>
             (case (if out \<noteq> [] then WriteFile w2 out (AccessToken rec') else (w2, None)) of
                (w3, Some e) \<Rightarrow> (lg, w3, Inl (Fatal_write out e))
              | (w3, None) \<Rightarrow> (lg @ printRecord rec' verbose, w3, Inr rec')))"

text \<open>The loop has no exit but a fatal error; \<open>n\<close> bounds the passes that are run, and
  \<open>Running rec\<close> is the daemon about to start its next pass with \<open>rec\<close> in memory.\<close>

fun main_loop ::
  "nat \<Rightarrow> world \<Rightarrow> string \<Rightarrow> string \<Rightarrow> string \<Rightarrow> int \<Rightarrow> int \<Rightarrow> TokenRecord
     \<Rightarrow> log_event list \<times> world \<times> outcome" where
  "main_loop 0 w rurl out rootCAs verbose interval rec = ([], w, Running rec)"
| "main_loop (Suc n) w rurl out rootCAs verbose interval rec =
     (case loop_body w rurl out rootCAs verbose interval rec of
        (lg, w', Inl f) \<Rightarrow> (lg, w', Fatal f)
      | (lg, w', Inr rec') \<Rightarrow>
          (case main_loop n w' rurl out rootCAs verbose interval rec' of
             (lg', w'', r) \<Rightarrow> (lg @ lg', w'', r)))"

text \<open>\<^verbatim>\<open>main\<close> once the flags are parsed and the directory of root CAs is known (from
  \<^verbatim>\<open>if verbose > 0 { fmt.Println("Read CERN CAs from", rootCAs) }\<close> on).\<close>

definition main ::
  "nat \<Rightarrow> world \<Rightarrow> int \<Rightarrow> string \<Rightarrow> string \<Rightarrow> string \<Rightarrow> string \<Rightarrow> int
     \<Rightarrow> log_event list \<times> world \<times> outcome" where
  "main n w verbose token out uri rootCAs interval =
     (let lg0 = (if verbose > 0 then [Println_read_CAs rootCAs] else []);
          rurl = uri @ ''/token/renew''
      in case Renew w rurl token rootCAs verbose of
           (lg, w1, Inl f) \<Rightarrow> (lg0 @ lg, w1, Fatal f)
         | (lg, w1, Inr rec) \<Rightarrow>
             (case (if out \<noteq> [] then WriteFile w1 out (AccessToken rec) else (w1, None)) of
                (w2, Some e) \<Rightarrow> (lg0 @ lg, w2, Fatal (Fatal_write out e))
              | (w2, None) \<Rightarrow>
                  (let lg1 = lg0 @ lg @ printRecord rec verbose
                   in if interval > 0 then
                        (case main_loop n w2 rurl out rootCAs verbose interval rec of
                           (lg', w3, r) \<Rightarrow> (lg1 @ lg', w3, r))
                      else (lg1, w2, Exit 0))))"

subsection \<open>What the claims speak of\<close>

text \<open>The certificates decoded from the listed files of a directory, in the order of the
  listing.\<close>

definition dir_certs :: "world \<Rightarrow> string \<Rightarrow> string list \<Rightarrow> cert list" where
  "dir_certs w rootCAs files =
     concat (map (\<lambda>finfo. PEM_certs w (fst (ReadFile w (rootCAs @ ''/'' @ finfo)))) files)"

text \<open>The entries of a directory from which at least one certificate is decoded: the
  certificate files that are successfully parsed.\<close>

definition parsed_files :: "world \<Rightarrow> string \<Rightarrow> string list" where
  "parsed_files w rootCAs =
     filter (\<lambda>finfo. PEM_certs w (fst (ReadFile w (rootCAs @ ''/'' @ finfo))) \<noteq> [])
       (fst (ReadDir w rootCAs))"

subsection \<open>Results without the log\<close>

text \<open>What \<open>Transport\<close> returns, apart from the log: it depends neither on the verbosity
  nor on what the files hold beyond their certificates. That \<open>Transport\<close> returns it is
  lemma \<open>Transport_snd\<close>.\<close>

definition Transport_result :: "world \<Rightarrow> string \<Rightarrow> transport option \<times> string option" where
  "Transport_result w rootCAs =
     (case ReadDir w rootCAs of
        (files, Some err) \<Rightarrow>
          (None, Some (if rootCAs = [] then ''root CAs area is not provided''
                       else ''Unable to list files in '' @ [CHR 0x27] @ rootCAs @ [CHR 0x27]
                            @ '', error: '' @ err @ [LF]))
      | (files, None) \<Rightarrow>
          (Some \<lparr>TLSClientConfig =
             (if files \<noteq> []
              then \<lparr>InsecureSkipVerify = False,
                    RootCAs = Some (foldl AddCert [] (dir_certs w rootCAs files))\<rparr>
              else \<lparr>InsecureSkipVerify = True, RootCAs = None\<rparr>)\<rparr>, None))"

text \<open>What \<open>Renew\<close> returns, apart from the log: the world after the call and the record
  or the fatal error. That \<open>Renew\<close> returns it is lemma \<open>Renew_snd\<close>.\<close>

definition Renew_result :: "world \<Rightarrow> string \<Rightarrow> string \<Rightarrow> string \<Rightarrow> world \<times> (fatal + TokenRecord)" where
  "Renew_result w uri token rootCAs =
     (case ReadToken w token of
        Inl f \<Rightarrow> (w, Inl f)
      | Inr t \<Rightarrow>
          (case NewRequest_err w uri of
             Some e \<Rightarrow> (w, Inl (Fatal_error e))
           | None \<Rightarrow>
               (let req = \<lparr>Method = ''GET'', URL = uri,
                           Header = [''Authorization'' \<mapsto> [''Bearer '' @ t],
                                     ''Accept'' \<mapsto> [''application/json'']]\<rparr>;
                    client = \<lparr>ClientTransport = fst (Transport_result w rootCAs)\<rparr>;
                    w' = w\<lparr>sent := sent w @ [(client, req)]\<rparr>
                in case Do w (sent w) client req of
                     Inl e \<Rightarrow> (w', Inl (Fatal_http_request req e))
                   | Inr resp \<Rightarrow>
                       (case Body_err resp of
                          Some e \<Rightarrow> (w', Inl (Fatal_error e))
                        | None \<Rightarrow>
                            (case Unmarshal w (Body resp) of
                               Inl e \<Rightarrow> (w', Inl (Fatal_error e))
                             | Inr rec \<Rightarrow> (w', Inr rec))))))"

subsection \<open>Worlds used as examples\<close>

text \<open>A machine with no files, no network and no certificate or JSON in any data.\<close>

definition bare :: world where
  "bare = \<lparr>Stat = (\<lambda>p. Some ''no such file or directory''),
           ReadFile = (\<lambda>p. ([], Some ''no such file or directory'')),
           ReadDir = (\<lambda>p. ([], Some ''no such file or directory'')),
           WriteFile_err = (\<lambda>p. None),
           PEM_certs = (\<lambda>d. []),
           NewRequest_err = (\<lambda>u. None),
           DumpRequestOut = (\<lambda>r. ([], None)),
           Do = (\<lambda>h c r. Inl ''connection refused''),
           DumpResponse = (\<lambda>r. ([], None)),
           JSON_parse = (\<lambda>d. Inl ''unexpected end of JSON input''),
           sent = [], slept = []\<rparr>"

text \<open>The file \<^verbatim>\<open>/tmp/token\<close> holds \<^verbatim>\<open>"abc\ndef\n"\<close>.\<close>

definition abc_world :: world where
  "abc_world = bare\<lparr>Stat := (Stat bare)(''/tmp/token'' := None),
        ReadFile := (ReadFile bare)(''/tmp/token'' := (''abc'' @ [LF] @ ''def'' @ [LF], None))\<rparr>"

text \<open>\<^verbatim>\<open>/ca\<close> holds one file, which is readable and is not PEM.\<close>

definition junk_dir :: world where
  "junk_dir = bare\<lparr>Stat := (Stat bare)(''/ca/junk.txt'' := None),
        ReadFile := (ReadFile bare)(''/ca/junk.txt'' := (''not a certificate'', None)),
        ReadDir := (ReadDir bare)(''/ca'' := ([''junk.txt''], None))\<rparr>"

text \<open>\<^verbatim>\<open>/ca\<close> holds a PEM file with one certificate and a file that is not PEM.\<close>

definition mixed_dir :: world where
  "mixed_dir = junk_dir\<lparr>Stat := (Stat junk_dir)(''/ca/ca.pem'' := None),
        ReadFile := (ReadFile junk_dir)(''/ca/ca.pem'' := (''-----BEGIN CERTIFICATE-----'', None)),
        ReadDir := (ReadDir junk_dir)(''/ca'' := ([''ca.pem'', ''junk.txt''], None)),
        PEM_certs := (\<lambda>d. if d = ''-----BEGIN CERTIFICATE-----'' then [''CA 1''] else [])\<rparr>"

subsection \<open>What the claim about the response speaks of\<close>

text \<open>The JSON values a field takes: \<^verbatim>\<open>null\<close>, a string for the three tokens, an integer
  of \<^verbatim>\<open>int64\<close> for the two lifetimes.\<close>

fun accepts :: "field \<Rightarrow> json \<Rightarrow> bool" where
  "accepts f JNull = True"
| "accepts F_access_token (JString s) = True"
| "accepts F_refresh_token (JString s) = True"
| "accepts F_id_token (JString s) = True"
| "accepts F_expires_in (JInt i) = int64_range i"
| "accepts F_refresh_expires_in (JInt i) = int64_range i"
| "accepts f v = False"

text \<open>An object whose values, for the keys that name a field, are ones the field takes.\<close>

definition well_typed :: "(string \<times> json) list \<Rightarrow> bool" where
  "well_typed kvs =
     list_all (\<lambda>(k, v). case field_of_key k of None \<Rightarrow> True | Some f \<Rightarrow> accepts f v) kvs"

text \<open>No key of the object names the field.\<close>

definition absent :: "field \<Rightarrow> (string \<times> json) list \<Rightarrow> bool" where
  "absent f kvs = (Some f \<notin> set (map (\<lambda>(k, v). field_of_key k) kvs))"

fun field_value :: "field \<Rightarrow> TokenRecord \<Rightarrow> string + 64 word" where
  "field_value F_access_token rec = Inl (AccessToken rec)"
| "field_value F_expires_in rec = Inr (AccessTokenExpire rec)"
| "field_value F_refresh_token rec = Inl (RefreshToken rec)"
| "field_value F_refresh_expires_in rec = Inr (RefreshTokenExpire rec)"
| "field_value F_id_token rec = Inl (IdToken rec)"

subsection \<open>Servers used as examples\<close>

text \<open>The server answers every request with the empty object, or with an object whose
  access token is a number.\<close>

definition empty_object_server :: world where
  "empty_object_server = bare\<lparr>
     Do := (\<lambda>h c r. Inr \<lparr>Body = ''{}'', Body_err = None\<rparr>),
     JSON_parse := (\<lambda>d. if d = ''{}'' then Inr (JObject []) else Inl ''invalid character'')\<rparr>"

definition number_server :: world where
  \<open>number_server = bare\<lparr>
     Do := (\<lambda>h c r. Inr \<lparr>Body = ''{"access_token":5}'', Body_err = None\<rparr>),
     JSON_parse := (\<lambda>d. if d = ''{"access_token":5}''
                         then Inr (JObject [(''access_token'', JInt 5)])
                         else Inl ''invalid character'')\<rparr>\<close>

subsection \<open>Persisting the access token\<close>

text \<open>The block \<^verbatim>\<open>if out != "" { ioutil.WriteFile(out, []byte(rec.AccessToken), 0777) ... }\<close>
  that follows each renewal in \<open>main\<close>, on its own: the world after it, and the record or
  the fatal error of the write.\<close>

definition store :: "world \<Rightarrow> string \<Rightarrow> TokenRecord \<Rightarrow> world \<times> (fatal + TokenRecord)" where
  "store w out rec =
     (case (if out \<noteq> [] then WriteFile w out (AccessToken rec) else (w, None)) of
        (w', Some e) \<Rightarrow> (w', Inl (Fatal_write out e))
      | (w', None) \<Rightarrow> (w', Inr rec))"

subsection \<open>A renewal endpoint used as example\<close>

text \<open>The endpoint answers the bearer \<^verbatim>\<open>T0\<close> with the first body and the bearer \<^verbatim>\<open>R1\<close>,
  the refresh token of the first body, with the second.\<close>

definition body1 :: string where
  \<open>body1 = ''{"access_token":"A1","expires_in":120,"refresh_token":"R1","refresh_expires_in":3600,"id_token":"I1"}''\<close>

definition body2 :: string where
  \<open>body2 = ''{"access_token":"A2","expires_in":120,"refresh_token":"R2","refresh_expires_in":3600,"id_token":"I2"}''\<close>

definition record1 :: TokenRecord where
  "record1 = \<lparr>AccessToken = ''A1'', AccessTokenExpire = 120, RefreshToken = ''R1'',
              RefreshTokenExpire = 3600, IdToken = ''I1''\<rparr>"

definition record2 :: TokenRecord where
  "record2 = \<lparr>AccessToken = ''A2'', AccessTokenExpire = 120, RefreshToken = ''R2'',
              RefreshTokenExpire = 3600, IdToken = ''I2''\<rparr>"

definition sso :: world where
  "sso = bare\<lparr>
     Do := (\<lambda>h c r.
       if Header r ''Authorization'' = Some [''Bearer T0'']
       then Inr \<lparr>Body = body1, Body_err = None\<rparr>
       else if Header r ''Authorization'' = Some [''Bearer R1'']
       then Inr \<lparr>Body = body2, Body_err = None\<rparr>
       else Inr \<lparr>Body = ''Unauthorized'', Body_err = None\<rparr>),
     JSON_parse := (\<lambda>d.
       if d = body1
       then Inr (JObject [(''access_token'', JString ''A1''), (''expires_in'', JInt 120),
                          (''refresh_token'', JString ''R1''), (''refresh_expires_in'', JInt 3600),
                          (''id_token'', JString ''I1'')])
       else if d = body2
       then Inr (JObject [(''access_token'', JString ''A2''), (''expires_in'', JInt 120),
                          (''refresh_token'', JString ''R2''), (''refresh_expires_in'', JInt 3600),
                          (''id_token'', JString ''I2'')])
       else Inl ''invalid character'')\<rparr>"

text \<open>The same, on a machine where a file named \<^verbatim>\<open>R1\<close> exists and holds \<^verbatim>\<open>X\<close>.\<close>

definition sso_R1_file :: world where
  "sso_R1_file = sso\<lparr>Stat := (Stat sso)(''R1'' := None),
        ReadFile := (ReadFile sso)(''R1'' := (''X'', None))\<rparr>"

section \<open>Properties\<close>

subsection \<open>Transport, apart from its log\<close>

lemma Transport_files_result:
  "snd (Transport_files w r v files (lg, pool, certs)) =
     (foldl AddCert pool (dir_certs w r files), certs \<or> files \<noteq> [])"
proof (induction files arbitrary: lg pool certs)
  case Nil
  show ?case by (simp add: dir_certs_def)
next
  case (Cons f files)
  obtain d e where rf: "ReadFile w (r @ ''/'' @ f) = (d, e)" by (cases "ReadFile w (r @ ''/'' @ f)")
  have dc: "dir_certs w r (f # files) = PEM_certs w d @ dir_certs w r files"
    using rf by (simp add: dir_certs_def)
  show ?case
    using rf by (simp add: Cons.IH dc AppendCertsFromPEM_def Let_def)
qed

lemma Transport_snd: "snd (Transport w r v) = Transport_result w r"
proof (cases "ReadDir w r")
  case (Pair files e)
  show ?thesis
  proof (cases e)
    case None
    have "snd (Transport_files w r v files ([], [], False)) =
       (foldl AddCert [] (dir_certs w r files), files \<noteq> [])"
      by (simp add: Transport_files_result)
    then show ?thesis using Pair None
      by (auto simp: Transport_def Transport_result_def split: prod.splits)
  next
    case (Some err)
    then show ?thesis using Pair
      by (simp add: Transport_def Transport_result_def Let_def)
  qed
qed

subsection \<open>ReadToken\<close>

lemma Replace_single: "Replace s [c] [] = filter (\<lambda>x. x \<noteq> c) s"
  by (induction s) auto

text \<open>
  Claim C6. A string for which \<^verbatim>\<open>os.Stat\<close> reports an error (no file of that name
  exists) is returned unchanged, as a literal token.
\<close>

theorem ReadToken_literal:
  "Stat w s \<noteq> None \<Longrightarrow> ReadToken w s = Inr s"
  by (auto simp: ReadToken_def)

theorem ReadToken_literal_witness:
  "Stat bare ''eyJhbGciOi'' \<noteq> None \<and> ReadToken bare ''eyJhbGciOi'' = Inr ''eyJhbGciOi''"
  using ReadToken_literal [of bare "''eyJhbGciOi''"] by (simp add: bare_def)

text \<open>
  Claim C7. For a path that names an existing file which can be read, the result is
  the whole contents of the file without its newline characters; a file holding
  \<^verbatim>\<open>"abc\ndef\n"\<close> gives \<^verbatim>\<open>"abcdef"\<close>.
\<close>

theorem ReadToken_file:
  "Stat w p = None \<Longrightarrow> ReadFile w p = (b, None) \<Longrightarrow>
     ReadToken w p = Inr (filter (\<lambda>x. x \<noteq> LF) b)"
  by (simp add: ReadToken_def Replace_single)

theorem ReadToken_file_witness:
  "Stat abc_world ''/tmp/token'' = None
   \<and> ReadFile abc_world ''/tmp/token'' = (''abc'' @ [LF] @ ''def'' @ [LF], None)
   \<and> ReadToken abc_world ''/tmp/token'' = Inr ''abcdef''"
  using ReadToken_file [of abc_world "''/tmp/token''" "''abc'' @ [LF] @ ''def'' @ [LF]"]
  by (simp add: abc_world_def bare_def LF_def)

subsection \<open>Renew, apart from its log\<close>

lemma Renew_snd: "snd (Renew w uri token rootCAs verbose) = Renew_result w uri token rootCAs"
proof (cases "ReadToken w token")
  case (Inl f)
  then show ?thesis by (simp add: Renew_def Renew_result_def)
next
  case (Inr t)
  show ?thesis
  proof (cases "NewRequest_err w uri")
    case (Some e)
    then show ?thesis using Inr by (simp add: Renew_def Renew_result_def)
  next
    case None
    obtain lgt tr err where T: "Transport w rootCAs verbose = (lgt, tr, err)"
      by (cases "Transport w rootCAs verbose")
    have TR: "Transport_result w rootCAs = (tr, err)"
      using Transport_snd [of w rootCAs verbose] T by simp
    have tn: "err \<noteq> None \<Longrightarrow> tr = None"
      using TR by (cases "ReadDir w rootCAs") (auto simp: Transport_result_def split: option.splits)
    show ?thesis
    proof (cases err)
      case None
      show ?thesis
        unfolding Renew_def Renew_result_def Inr \<open>NewRequest_err w uri = None\<close> T TR None
        by (simp add: Let_def split: sum.splits option.splits)
    next
      case (Some y)
      then have "tr = None" using tn by simp
      then show ?thesis
        unfolding Renew_def Renew_result_def Inr \<open>NewRequest_err w uri = None\<close> T TR Some
        by (simp add: Let_def split: sum.splits option.splits)
    qed
  qed
qed

lemma Renew_result_request:
  assumes "ReadToken w token = Inr t" and "NewRequest_err w uri = None"
  shows "fst (Renew_result w uri token rootCAs) =
           w\<lparr>sent := sent w @ [(\<lparr>ClientTransport = fst (Transport_result w rootCAs)\<rparr>,
                     \<lparr>Method = ''GET'', URL = uri,
                      Header = [''Authorization'' \<mapsto> [''Bearer '' @ t],
                                ''Accept'' \<mapsto> [''application/json'']]\<rparr>)]\<rparr>"
    and "snd (Renew_result w uri token rootCAs) =
           (case Do w (sent w) \<lparr>ClientTransport = fst (Transport_result w rootCAs)\<rparr>
                   \<lparr>Method = ''GET'', URL = uri,
                    Header = [''Authorization'' \<mapsto> [''Bearer '' @ t],
                              ''Accept'' \<mapsto> [''application/json'']]\<rparr> of
              Inl e \<Rightarrow> Inl (Fatal_http_request
                              \<lparr>Method = ''GET'', URL = uri,
                               Header = [''Authorization'' \<mapsto> [''Bearer '' @ t],
                                         ''Accept'' \<mapsto> [''application/json'']]\<rparr> e)
            | Inr resp \<Rightarrow>
                (case Body_err resp of
                   Some e \<Rightarrow> Inl (Fatal_error e)
                 | None \<Rightarrow>
                     (case Unmarshal w (Body resp) of
                        Inl e \<Rightarrow> Inl (Fatal_error e)
                      | Inr rec \<Rightarrow> Inr rec)))"
  using assms by (simp_all add: Renew_result_def Let_def split: sum.splits option.splits)

lemma Renew_result_frame: "\<exists>s. fst (Renew_result w uri token rootCAs) = w\<lparr>sent := s\<rparr>"
proof (cases "ReadToken w token")
  case (Inl f)
  then have "fst (Renew_result w uri token rootCAs) = w\<lparr>sent := sent w\<rparr>"
    by (simp add: Renew_result_def)
  then show ?thesis ..
next
  case (Inr t)
  show ?thesis
  proof (cases "NewRequest_err w uri")
    case None
    then show ?thesis using Renew_result_request(1) [OF Inr None] by blast
  next
    case (Some e)
    then have "fst (Renew_result w uri token rootCAs) = w\<lparr>sent := sent w\<rparr>"
      using Inr by (simp add: Renew_result_def)
    then show ?thesis ..
  qed
qed

lemma Renew_result_ok_request:
  "snd (Renew_result w uri token rootCAs) = Inr rec \<Longrightarrow> NewRequest_err w uri = None"
  by (auto simp: Renew_result_def split: sum.splits option.splits)

subsection \<open>The trust store\<close>

text \<open>
  Claim C1. The claim asks for an insecure configuration exactly when no certificate
  file of the directory was parsed. The code does not do that: the loop computes \<^verbatim>\<open>ok\<close>
  from \<^verbatim>\<open>AppendCertsFromPEM\<close>, uses it for a log line only, and sets \<^verbatim>\<open>certs = true\<close> for
  every entry it visits. The directory \<^verbatim>\<open>/ca\<close> of \<open>junk_dir\<close> holds one readable file that is
  not PEM: no certificate file is parsed, and the configuration returned verifies,
  against an empty pool, instead of being insecure.
\<close>

theorem Transport_junk_only_verifies:
  "ReadDir junk_dir ''/ca'' = ([''junk.txt''], None)
   \<and> parsed_files junk_dir ''/ca'' = []
   \<and> snd (Transport junk_dir ''/ca'' 0) =
       (Some \<lparr>TLSClientConfig = \<lparr>InsecureSkipVerify = False, RootCAs = Some []\<rparr>\<rparr>, None)"
  by (simp add: junk_dir_def bare_def parsed_files_def Transport_def AppendCertsFromPEM_def Let_def)

text \<open>
  Claim C2, as amended. When the directory cannot be listed, \<open>Transport\<close> returns no
  transport at all (Go's \<^verbatim>\<open>nil\<close>) together with an error, which it also logs; the
  process goes on. For the empty path the error says that the root CAs area is not
  provided.
\<close>

theorem Transport_unlisted:
  assumes "ReadDir w rootCAs = (files, Some err)"
  shows "\<exists>msg. Transport w rootCAs verbose = ([Log_printf msg], None, Some msg)
           \<and> (rootCAs = [] \<longrightarrow> msg = ''root CAs area is not provided'')"
  using assms by (auto simp: Transport_def Let_def)

theorem Transport_unlisted_witness:
  "ReadDir bare [] = ([], Some ''no such file or directory'')
   \<and> Transport bare [] 0 =
       ([Log_printf ''root CAs area is not provided''], None, Some ''root CAs area is not provided'')"
  using Transport_unlisted [of bare "[]" "[]" "''no such file or directory''" 0]
  by (simp add: bare_def Transport_def Let_def)

text \<open>
  Claim C2 as it is written fails: for a directory that does not exist the transport
  returned is \<^verbatim>\<open>nil\<close>, not a configuration with verification disabled.
\<close>

theorem Transport_unlisted_counterexample:
  "snd (ReadDir bare ''/no/such/dir'') = Some ''no such file or directory''
   \<and> fst (snd (Transport bare ''/no/such/dir'' 0)) = None"
  by (simp add: bare_def Transport_def Let_def)

text \<open>
  Claim C3. A directory with one file that holds certificates and one file that holds
  none, listed in either order: the configuration verifies, and its pool holds the
  certificates of the valid file, so the scan went past the garbage file. All that
  depends on the verbosity is the log.
\<close>

theorem Transport_one_valid_one_garbage:
  assumes "ReadDir w rootCAs = (files, None)"
      and "files = [good, junk] \<or> files = [junk, good]"
      and "PEM_certs w (fst (ReadFile w (rootCAs @ ''/'' @ good))) = cs"
      and "cs \<noteq> []"
      and "PEM_certs w (fst (ReadFile w (rootCAs @ ''/'' @ junk))) = []"
  shows "snd (Transport w rootCAs verbose) =
           (Some \<lparr>TLSClientConfig = \<lparr>InsecureSkipVerify = False,
                                      RootCAs = Some (foldl AddCert [] cs)\<rparr>\<rparr>, None)"
  using assms by (auto simp: Transport_snd Transport_result_def dir_certs_def)

theorem Transport_one_valid_one_garbage_witness:
  "ReadDir mixed_dir ''/ca'' = ([''ca.pem'', ''junk.txt''], None)
   \<and> PEM_certs mixed_dir (fst (ReadFile mixed_dir ''/ca/ca.pem'')) = [''CA 1'']
   \<and> PEM_certs mixed_dir (fst (ReadFile mixed_dir ''/ca/junk.txt'')) = []
   \<and> snd (Transport mixed_dir ''/ca'' 3) =
       (Some \<lparr>TLSClientConfig = \<lparr>InsecureSkipVerify = False, RootCAs = Some [''CA 1'']\<rparr>\<rparr>, None)
   \<and> fst (Transport mixed_dir ''/ca'' 3) =
       [Log_load_CA_file ''/ca/ca.pem'', Log_invalid_PEM ''/ca/junk.txt'',
        Log_load_CA_file ''/ca/junk.txt'']"
  using Transport_one_valid_one_garbage
    [of mixed_dir "''/ca''" "[''ca.pem'', ''junk.txt'']" "''ca.pem''" "''junk.txt''" "[''CA 1'']" 3]
  by (simp add: mixed_dir_def junk_dir_def bare_def Transport_def AppendCertsFromPEM_def
      AddCert_def Let_def)

subsection \<open>Verbosity\<close>

text \<open>
  Claim C10. For the same world (files, directory of root CAs, server), URL and token,
  two calls of \<open>Renew\<close> that differ only in the verbosity return the same record or
  the same fatal error, and leave the same world: they sent the same request, with the
  same headers, through the same client. The verbosity changes the log only.
\<close>

theorem Renew_verbose_independent:
  "snd (snd (Renew w uri token rootCAs verbose)) = snd (snd (Renew w uri token rootCAs verbose'))
   \<and> sent (fst (snd (Renew w uri token rootCAs verbose)))
       = sent (fst (snd (Renew w uri token rootCAs verbose')))
   \<and> fst (snd (Renew w uri token rootCAs verbose)) = fst (snd (Renew w uri token rootCAs verbose'))"
  by (simp add: Renew_snd)

subsection \<open>The names of the fields\<close>

lemma field_of_key_tags:
  "field_of_key ''access_token'' = Some F_access_token"
  "field_of_key ''expires_in'' = Some F_expires_in"
  "field_of_key ''refresh_token'' = Some F_refresh_token"
  "field_of_key ''refresh_expires_in'' = Some F_refresh_expires_in"
  "field_of_key ''id_token'' = Some F_id_token"
  by code_simp+

lemma field_of_key_fold:
  "field_of_key ''Access_Token'' = Some F_access_token"
  "field_of_key ''scope'' = None"
  "field_of_key [CHR ''a'', CHR ''c'', CHR ''c'', CHR ''e'', CHR 0xC5, CHR 0xBF, CHR ''s'', CHR ''_'',
                 CHR ''t'', CHR ''o'', CHR 0xE2, CHR 0x84, CHR 0xAA, CHR ''e'', CHR ''n''] = Some F_access_token"
  by code_simp+

subsection \<open>The client of a renewal\<close>

lemma Transport_result_error:
  "snd (Transport_result w r) \<noteq> None \<Longrightarrow> fst (Transport_result w r) = None"
  by (cases "ReadDir w r") (auto simp: Transport_result_def split: option.splits)

text \<open>
  Claim C4. When \<open>Transport\<close> returns an error and \<open>Renew\<close> gets as far as its request (the
  token is read, the request is built), the request is made, by the zero client, whose
  transport is Go's default one with the system's roots and not a transport of the
  program's own, so not an insecure one; and what \<open>Renew\<close> returns is what that exchange
  gives.
\<close>

theorem Renew_default_client:
  assumes "snd (snd (Transport w rootCAs verbose)) \<noteq> None"
      and "ReadToken w token = Inr t"
      and "NewRequest_err w uri = None"
  shows "sent (fst (snd (Renew w uri token rootCAs verbose))) =
           sent w @ [(\<lparr>ClientTransport = None\<rparr>,
                      \<lparr>Method = ''GET'', URL = uri,
                       Header = [''Authorization'' \<mapsto> [''Bearer '' @ t],
                                 ''Accept'' \<mapsto> [''application/json'']]\<rparr>)]
         \<and> snd (snd (Renew w uri token rootCAs verbose)) =
           (case Do w (sent w) \<lparr>ClientTransport = None\<rparr>
                   \<lparr>Method = ''GET'', URL = uri,
                    Header = [''Authorization'' \<mapsto> [''Bearer '' @ t],
                              ''Accept'' \<mapsto> [''application/json'']]\<rparr> of
              Inl e \<Rightarrow> Inl (Fatal_http_request
                              \<lparr>Method = ''GET'', URL = uri,
                               Header = [''Authorization'' \<mapsto> [''Bearer '' @ t],
                                         ''Accept'' \<mapsto> [''application/json'']]\<rparr> e)
            | Inr resp \<Rightarrow>
                (case Body_err resp of
                   Some e \<Rightarrow> Inl (Fatal_error e)
                 | None \<Rightarrow>
                     (case Unmarshal w (Body resp) of
                        Inl e \<Rightarrow> Inl (Fatal_error e)
                      | Inr rec \<Rightarrow> Inr rec)))"
proof -
  have n: "fst (Transport_result w rootCAs) = None"
    using assms(1) by (simp add: Transport_snd Transport_result_error)
  show ?thesis
    using Renew_result_request [OF assms(2,3), of rootCAs]
    by (simp add: Renew_snd n)
qed


theorem Renew_default_client_witness:
  "snd (snd (Transport sso ''/ca'' 0)) \<noteq> None
   \<and> ReadToken sso ''T0'' = Inr ''T0''
   \<and> NewRequest_err sso ''https://sso/token/renew'' = None
   \<and> sent (fst (snd (Renew sso ''https://sso/token/renew'' ''T0'' ''/ca'' 0))) =
       [(\<lparr>ClientTransport = None\<rparr>,
         \<lparr>Method = ''GET'', URL = ''https://sso/token/renew'',
          Header = [''Authorization'' \<mapsto> [''Bearer T0''],
                    ''Accept'' \<mapsto> [''application/json'']]\<rparr>)]
   \<and> snd (snd (Renew sso ''https://sso/token/renew'' ''T0'' ''/ca'' 0)) = Inr record1"
proof -
  have h1: "snd (snd (Transport sso ''/ca'' 0)) \<noteq> None"
    by (simp add: sso_def bare_def Transport_def Let_def)
  have h2: "ReadToken sso ''T0'' = Inr ''T0''"
    by (simp add: sso_def bare_def ReadToken_def)
  have h3: "NewRequest_err sso ''https://sso/token/renew'' = None"
    by (simp add: sso_def bare_def)
  have s0: "sent sso = []"
    by (simp add: sso_def bare_def)
  have d: "Do sso [] \<lparr>ClientTransport = None\<rparr>
             \<lparr>Method = ''GET'', URL = ''https://sso/token/renew'',
              Header = [''Authorization'' \<mapsto> [''Bearer '' @ ''T0''],
                        ''Accept'' \<mapsto> [''application/json'']]\<rparr> = Inr \<lparr>Body = body1, Body_err = None\<rparr>"
    by (simp add: sso_def bare_def)
  have u: "Unmarshal sso body1 = Inr record1"
    by (simp add: sso_def bare_def Unmarshal_def zero_TokenRecord_def record1_def
        field_of_key_tags int64_range_def)
  show ?thesis
    using Renew_default_client [OF h1 h2 h3] h1 h2 h3 d u by (simp add: s0)
qed

subsection \<open>Decoding the response\<close>

lemma set_field_accepts: "accepts f v \<Longrightarrow> \<exists>rec'. set_field rec f v = Some rec'"
  by (cases f; cases v) auto

lemma set_field_other:
  "set_field rec g v = Some rec' \<Longrightarrow> g \<noteq> f \<Longrightarrow> field_value f rec' = field_value f rec"
  by (cases g; cases v; cases f) (auto split: if_splits)

lemma decode_object_accepts:
  "well_typed kvs \<Longrightarrow> \<exists>rec'. decode_object kvs rec = Inr rec'"
proof (induction kvs arbitrary: rec)
  case Nil
  show ?case by simp
next
  case (Cons kv kvs)
  obtain k v where kv: "kv = (k, v)" by (cases kv)
  have wt: "well_typed kvs" using Cons.prems by (simp add: well_typed_def)
  show ?case
  proof (cases "field_of_key k")
    case None
    then show ?thesis using Cons.IH [OF wt] kv by simp
  next
    case (Some f)
    then have "accepts f v" using Cons.prems kv by (simp add: well_typed_def)
    then obtain rec1 where "set_field rec f v = Some rec1"
      using set_field_accepts by blast
    then show ?thesis using Cons.IH [OF wt, of rec1] kv Some by simp
  qed
qed

lemma decode_object_absent:
  "decode_object kvs rec = Inr rec' \<Longrightarrow> absent f kvs \<Longrightarrow> field_value f rec' = field_value f rec"
proof (induction kvs arbitrary: rec)
  case Nil
  then show ?case by simp
next
  case (Cons kv kvs)
  obtain k v where kv: "kv = (k, v)" by (cases kv)
  have ab: "absent f kvs" and nk: "field_of_key k \<noteq> Some f"
    using Cons.prems(2) kv by (auto simp: absent_def)
  show ?case
  proof (cases "field_of_key k")
    case None
    then show ?thesis using Cons.IH [OF _ ab] Cons.prems(1) kv by simp
  next
    case (Some g)
    then have gf: "g \<noteq> f" using nk by auto
    from Cons.prems(1) kv Some obtain rec1 where
      s: "set_field rec g v = Some rec1" and d: "decode_object kvs rec1 = Inr rec'"
      by (auto split: option.splits)
    show ?thesis using Cons.IH [OF d ab] set_field_other [OF s gf] by simp
  qed
qed

text \<open>
  Claim C9, as amended. When the exchange succeeds and the body is a JSON object whose
  values for the keys of the record are ones the fields take, \<open>Renew\<close> returns a record,
  whichever keys are there; a field that no key names has its zero value, the empty
  string or 0. The witness is the body \<^verbatim>\<open>{}\<close>: the renewal succeeds with an empty
  access token and an empty refresh token.
\<close>

theorem Renew_absent_fields:
  assumes "ReadToken w token = Inr t"
      and "NewRequest_err w uri = None"
      and "Do w (sent w) \<lparr>ClientTransport = fst (snd (Transport w rootCAs verbose))\<rparr>
             \<lparr>Method = ''GET'', URL = uri,
              Header = [''Authorization'' \<mapsto> [''Bearer '' @ t],
                        ''Accept'' \<mapsto> [''application/json'']]\<rparr> = Inr resp"
      and "Body_err resp = None"
      and "JSON_parse w (Body resp) = Inr (JObject kvs)"
      and "well_typed kvs"
  shows "\<exists>rec. snd (snd (Renew w uri token rootCAs verbose)) = Inr rec
           \<and> (absent F_access_token kvs \<longrightarrow> AccessToken rec = [])
           \<and> (absent F_expires_in kvs \<longrightarrow> AccessTokenExpire rec = 0)
           \<and> (absent F_refresh_token kvs \<longrightarrow> RefreshToken rec = [])
           \<and> (absent F_refresh_expires_in kvs \<longrightarrow> RefreshTokenExpire rec = 0)
           \<and> (absent F_id_token kvs \<longrightarrow> IdToken rec = [])"
proof -
  obtain rec where d: "decode_object kvs zero_TokenRecord = Inr rec"
    using decode_object_accepts [OF assms(6)] by blast
  have r: "snd (Renew_result w uri token rootCAs) = Inr rec"
    using assms(1-5) d by (simp add: Renew_result_def Unmarshal_def Transport_snd Let_def)
  have z: "absent f kvs \<Longrightarrow> field_value f rec = field_value f zero_TokenRecord" for f
    using decode_object_absent [OF d] .
  have "absent F_access_token kvs \<longrightarrow> AccessToken rec = []"
    using z [of F_access_token] by (simp add: zero_TokenRecord_def)
  moreover have "absent F_expires_in kvs \<longrightarrow> AccessTokenExpire rec = 0"
    using z [of F_expires_in] by (simp add: zero_TokenRecord_def)
  moreover have "absent F_refresh_token kvs \<longrightarrow> RefreshToken rec = []"
    using z [of F_refresh_token] by (simp add: zero_TokenRecord_def)
  moreover have "absent F_refresh_expires_in kvs \<longrightarrow> RefreshTokenExpire rec = 0"
    using z [of F_refresh_expires_in] by (simp add: zero_TokenRecord_def)
  moreover have "absent F_id_token kvs \<longrightarrow> IdToken rec = []"
    using z [of F_id_token] by (simp add: zero_TokenRecord_def)
  ultimately show ?thesis
    using r by (simp add: Renew_snd)
qed

theorem Renew_absent_fields_witness:
  "ReadToken empty_object_server ''T0'' = Inr ''T0''
   \<and> NewRequest_err empty_object_server ''https://sso/token/renew'' = None
   \<and> JSON_parse empty_object_server ''{}'' = Inr (JObject [])
   \<and> well_typed [] \<and> absent F_access_token [] \<and> absent F_refresh_token []
   \<and> snd (snd (Renew empty_object_server ''https://sso/token/renew'' ''T0'' ''/ca'' 0)) =
       Inr \<lparr>AccessToken = [], AccessTokenExpire = 0, RefreshToken = [],
            RefreshTokenExpire = 0, IdToken = []\<rparr>"
  using Renew_absent_fields [where w = empty_object_server and token = "''T0''" and t = "''T0''"
      and uri = "''https://sso/token/renew''" and rootCAs = "''/ca''" and verbose = 0
      and resp = "\<lparr>Body = ''{}'', Body_err = None\<rparr>" and kvs = "[]"]
  by (simp add: empty_object_server_def bare_def Renew_def ReadToken_def Transport_def
      Unmarshal_def zero_TokenRecord_def well_typed_def absent_def Let_def)

text \<open>
  Claim C9 as it is written fails: not every well-formed JSON body is accepted. The
  body \<^verbatim>\<open>{"access_token":5}\<close> is a well-formed JSON object; the decoder rejects the number
  for the string field and the process ends with a fatal error.
\<close>

theorem Renew_number_body_counterexample:
  \<open>JSON_parse number_server ''{"access_token":5}'' = Inr (JObject [(''access_token'', JInt 5)])
   \<and> snd (snd (Renew number_server ''https://sso/token/renew'' ''T0'' ''/ca'' 0)) =
       Inl (Fatal_error ''json: cannot unmarshal into Go struct field TokenRecord.access_token'')\<close>
  by (simp add: number_server_def bare_def Renew_def ReadToken_def Transport_def
      Unmarshal_def field_of_key_tags Let_def)

subsection \<open>The daemon\<close>

lemma sso_first: "snd (snd (Renew sso ''https://sso/token/renew'' ''T0'' ''/ca'' 0)) = Inr record1"
  by (simp add: sso_def bare_def Renew_def ReadToken_def Transport_def Unmarshal_def
      zero_TokenRecord_def record1_def body1_def body2_def field_of_key_tags int64_range_def Let_def)

lemma Sleep_fields [simp]:
  "Stat (Sleep w i) = Stat w" "ReadFile (Sleep w i) = ReadFile w" "sent (Sleep w i) = sent w"
  by (simp_all add: Sleep_def)

lemma ReadToken_Sleep [simp]: "ReadToken (Sleep w i) t = ReadToken w t"
  by (simp add: ReadToken_def)

lemma WriteFile_sent [simp]: "sent (fst (WriteFile w p d)) = sent w"
  by (simp add: WriteFile_def split: option.splits)

lemma WriteFile_ok: "WriteFile w p d = (w', None) \<Longrightarrow> ReadFile w' p = (d, None)"
  by (auto simp: WriteFile_def split: option.splits)

lemma loop_body_snd:
  "snd (loop_body w rurl out rootCAs verbose interval rec) =
     (case Renew_result (Sleep w interval) rurl (RefreshToken rec) rootCAs of
        (w2, Inl f) \<Rightarrow> (w2, Inl f)
      | (w2, Inr rec') \<Rightarrow> store w2 out rec')"
proof -
  obtain lg w2 res where r: "Renew (Sleep w interval) rurl (RefreshToken rec) rootCAs verbose = (lg, w2, res)"
    by (cases "Renew (Sleep w interval) rurl (RefreshToken rec) rootCAs verbose")
  then have rr: "Renew_result (Sleep w interval) rurl (RefreshToken rec) rootCAs = (w2, res)"
    using Renew_snd [of "Sleep w interval" rurl "RefreshToken rec" rootCAs verbose] by simp
  show ?thesis
    unfolding loop_body_def Let_def r rr store_def
    by (cases res) (auto split: prod.splits option.splits)
qed

lemma store_sent [simp]: "sent (fst (store w out rec)) = sent w"
  by (auto simp: store_def split: prod.splits option.splits) (metis WriteFile_sent fst_conv)+

lemma store_ok:
  "store w out rec = (w', Inr rec') \<Longrightarrow> rec' = rec \<and> (out \<noteq> [] \<longrightarrow> ReadFile w' out = (AccessToken rec, None))"
  by (auto simp: store_def WriteFile_ok split: prod.splits option.splits if_splits)

lemma loop_body_file:
  assumes "snd (loop_body w rurl out rootCAs verbose interval rec) = (w', Inr rec')" and "out \<noteq> []"
  shows "ReadFile w' out = (AccessToken rec', None)"
proof -
  obtain w2 res where rr: "Renew_result (Sleep w interval) rurl (RefreshToken rec) rootCAs = (w2, res)"
    by (cases "Renew_result (Sleep w interval) rurl (RefreshToken rec) rootCAs")
  show ?thesis
  proof (cases res)
    case (Inl f)
    then show ?thesis using assms(1) rr by (simp add: loop_body_snd)
  next
    case (Inr rec1)
    then have "store w2 out rec1 = (w', Inr rec')"
      using assms(1) rr by (simp add: loop_body_snd)
    then show ?thesis using store_ok assms(2) by blast
  qed
qed

lemma main_loop_Suc_snd:
  "snd (loop_body w rurl out rootCAs verbose interval rec) = (w', Inr rec') \<Longrightarrow>
     snd (main_loop (Suc n) w rurl out rootCAs verbose interval rec) =
     snd (main_loop n w' rurl out rootCAs verbose interval rec')"
  by (cases "loop_body w rurl out rootCAs verbose interval rec")
     (auto split: prod.splits)

lemma main_loop_file:
  "snd (main_loop n w rurl out rootCAs verbose interval rec) = (w', Running rec') \<Longrightarrow>
   out \<noteq> [] \<Longrightarrow> ReadFile w out = (AccessToken rec, None) \<Longrightarrow>
   ReadFile w' out = (AccessToken rec', None)"
proof (induction n arbitrary: w rec)
  case 0
  then show ?case by simp
next
  case (Suc n)
  obtain lg w1 res where lb: "loop_body w rurl out rootCAs verbose interval rec = (lg, w1, res)"
    by (cases "loop_body w rurl out rootCAs verbose interval rec")
  show ?case
  proof (cases res)
    case (Inl f)
    then show ?thesis using Suc.prems(1) lb by simp
  next
    case (Inr rec1)
    then have s: "snd (loop_body w rurl out rootCAs verbose interval rec) = (w1, Inr rec1)"
      using lb by simp
    have "ReadFile w1 out = (AccessToken rec1, None)"
      using loop_body_file [OF s Suc.prems(2)] .
    moreover have "snd (main_loop n w1 rurl out rootCAs verbose interval rec1) = (w', Running rec')"
      using Suc.prems(1) main_loop_Suc_snd [OF s] by simp
    ultimately show ?thesis using Suc.IH Suc.prems(2) by blast
  qed
qed

lemma main_loop_no_exit:
  "snd (snd (main_loop n w rurl out rootCAs verbose interval rec)) \<noteq> Exit k"
proof (induction n arbitrary: w rec)
  case 0
  show ?case by simp
next
  case (Suc n)
  obtain lg w1 res where lb: "loop_body w rurl out rootCAs verbose interval rec = (lg, w1, res)"
    by (cases "loop_body w rurl out rootCAs verbose interval rec")
  show ?case
  proof (cases res)
    case (Inl f)
    then show ?thesis using lb by simp
  next
    case (Inr rec1)
    then show ?thesis using lb Suc.IH [of w1 rec1] by (auto split: prod.splits)
  qed
qed

lemma main_snd:
  "snd (main n w verbose token out uri rootCAs interval) =
     (case Renew_result w (uri @ ''/token/renew'') token rootCAs of
        (w1, Inl f) \<Rightarrow> (w1, Fatal f)
      | (w1, Inr rec) \<Rightarrow>
          (case store w1 out rec of
             (w2, Inl f) \<Rightarrow> (w2, Fatal f)
           | (w2, Inr rec') \<Rightarrow>
               if interval > 0
               then snd (main_loop n w2 (uri @ ''/token/renew'') out rootCAs verbose interval rec)
               else (w2, Exit 0)))"
proof -
  obtain lg w1 res where r: "Renew w (uri @ ''/token/renew'') token rootCAs verbose = (lg, w1, res)"
    by (cases "Renew w (uri @ ''/token/renew'') token rootCAs verbose")
  then have rr: "Renew_result w (uri @ ''/token/renew'') token rootCAs = (w1, res)"
    using Renew_snd [of w "uri @ ''/token/renew''" token rootCAs verbose] by simp
  show ?thesis
    unfolding main_def Let_def r rr store_def
    by (cases res) (auto split: prod.splits option.splits)
qed

lemma dir_certs_Sleep [simp]: "dir_certs (Sleep w i) r files = dir_certs w r files"
  by (simp add: dir_certs_def Sleep_def)

lemma Transport_result_Sleep [simp]: "Transport_result (Sleep w i) r = Transport_result w r"
proof -
  have "ReadDir (Sleep w i) = ReadDir w" by (simp add: Sleep_def)
  then show ?thesis
    by (cases "ReadDir w r") (auto simp: Transport_result_def split: option.splits)
qed

lemma Sleep_NewRequest [simp]: "NewRequest_err (Sleep w i) = NewRequest_err w"
  by (simp add: Sleep_def)

lemma store_NewRequest [simp]: "NewRequest_err (fst (store w out rec)) = NewRequest_err w"
  by (auto simp: store_def WriteFile_def split: option.splits)

lemma Renew_result_NewRequest [simp]:
  "NewRequest_err (fst (Renew_result w uri token rootCAs)) = NewRequest_err w"
proof -
  obtain s where "fst (Renew_result w uri token rootCAs) = w\<lparr>sent := s\<rparr>"
    using Renew_result_frame by blast
  then show ?thesis by simp
qed

lemma loop_body_NewRequest:
  "NewRequest_err (fst (snd (loop_body w rurl out rootCAs verbose interval rec))) = NewRequest_err w"
proof -
  obtain w2 res where rr: "Renew_result (Sleep w interval) rurl (RefreshToken rec) rootCAs = (w2, res)"
    by (cases "Renew_result (Sleep w interval) rurl (RefreshToken rec) rootCAs")
  have "NewRequest_err w2 = NewRequest_err w"
    using Renew_result_NewRequest [of "Sleep w interval" rurl "RefreshToken rec" rootCAs] rr by simp
  moreover have "NewRequest_err (fst (store w2 out r)) = NewRequest_err w2" for r by simp
  ultimately show ?thesis
    by (cases res) (simp_all add: loop_body_snd rr)
qed

lemma loop_body_request:
  assumes "Stat w (RefreshToken rec) \<noteq> None" and "NewRequest_err w rurl = None"
  shows "sent (fst (snd (loop_body w rurl out rootCAs verbose interval rec))) =
           sent w @ [(\<lparr>ClientTransport = fst (snd (Transport w rootCAs verbose))\<rparr>,
                      \<lparr>Method = ''GET'', URL = rurl,
                       Header = [''Authorization'' \<mapsto> [''Bearer '' @ RefreshToken rec],
                                 ''Accept'' \<mapsto> [''application/json'']]\<rparr>)]"
proof -
  obtain w2 res where rr: "Renew_result (Sleep w interval) rurl (RefreshToken rec) rootCAs = (w2, res)"
    by (cases "Renew_result (Sleep w interval) rurl (RefreshToken rec) rootCAs")
  have rt: "ReadToken (Sleep w interval) (RefreshToken rec) = Inr (RefreshToken rec)"
    using assms(1) by (auto simp: ReadToken_def)
  have nr: "NewRequest_err (Sleep w interval) rurl = None"
    using assms(2) by simp
  have "sent w2 = sent w @ [(\<lparr>ClientTransport = fst (snd (Transport w rootCAs verbose))\<rparr>,
                      \<lparr>Method = ''GET'', URL = rurl,
                       Header = [''Authorization'' \<mapsto> [''Bearer '' @ RefreshToken rec],
                                 ''Accept'' \<mapsto> [''application/json'']]\<rparr>)]"
    using Renew_result_request(1) [OF rt nr, of rootCAs] rr by (simp add: Transport_snd)
  moreover have "sent (fst (snd (loop_body w rurl out rootCAs verbose interval rec))) = sent w2"
    by (cases res) (simp_all add: loop_body_snd rr)
  ultimately show ?thesis by simp
qed

lemma loop_body_record:
  assumes "snd (snd (loop_body w rurl out rootCAs verbose interval rec)) = Inr rec'"
  shows "snd (snd (Renew (Sleep w interval) rurl (RefreshToken rec) rootCAs verbose)) = Inr rec'"
    and "snd (main_loop (Suc n) w rurl out rootCAs verbose interval rec) =
           snd (main_loop n (fst (snd (loop_body w rurl out rootCAs verbose interval rec)))
                  rurl out rootCAs verbose interval rec')"
proof -
  let ?LB = "loop_body w rurl out rootCAs verbose interval rec"
  obtain w2 res where rr: "Renew_result (Sleep w interval) rurl (RefreshToken rec) rootCAs = (w2, res)"
    by (cases "Renew_result (Sleep w interval) rurl (RefreshToken rec) rootCAs")
  have lb: "snd ?LB = (case res of Inl f \<Rightarrow> (w2, Inl f) | Inr r \<Rightarrow> store w2 out r)"
    by (simp add: loop_body_snd rr)
  obtain rec1 where res: "res = Inr rec1"
    using assms lb by (cases res) auto
  obtain w3 where st: "store w2 out rec1 = (w3, Inr rec')"
    using assms lb res by (cases "store w2 out rec1") auto
  then have "rec' = rec1" using store_ok by blast
  then show "snd (snd (Renew (Sleep w interval) rurl (RefreshToken rec) rootCAs verbose)) = Inr rec'"
    using rr res by (simp add: Renew_snd)
  have "snd ?LB = (w3, Inr rec')" using lb res st by simp
  then show "snd (main_loop (Suc n) w rurl out rootCAs verbose interval rec) =
               snd (main_loop n (fst (snd ?LB)) rurl out rootCAs verbose interval rec')"
    using main_loop_Suc_snd [of w rurl out rootCAs verbose interval rec w3 rec' n] by simp
qed

lemma loop_body_success:
  assumes "snd (Renew (Sleep w interval) rurl (RefreshToken rec) rootCAs verbose) = (w2, Inr rec')"
      and "(if out \<noteq> [] then WriteFile w2 out (AccessToken rec') else (w2, None)) = (w3, None)"
  shows "snd (loop_body w rurl out rootCAs verbose interval rec) = (w3, Inr rec')"
proof -
  have "Renew_result (Sleep w interval) rurl (RefreshToken rec) rootCAs = (w2, Inr rec')"
    using assms(1) by (simp add: Renew_snd)
  moreover have "store w2 out rec' = (w3, Inr rec')"
    using assms(2) by (simp add: store_def)
  ultimately show ?thesis by (simp add: loop_body_snd)
qed

lemma main_hand_off:
  assumes "snd (Renew w (uri @ ''/token/renew'') token rootCAs verbose) = (w1, Inr rec1)"
      and "(if out \<noteq> [] then WriteFile w1 out (AccessToken rec1) else (w1, None)) = (w2, None)"
      and "0 < interval"
  shows "snd (main n w verbose token out uri rootCAs interval) =
           snd (main_loop n w2 (uri @ ''/token/renew'') out rootCAs verbose interval rec1)"
proof -
  have rr: "Renew_result w (uri @ ''/token/renew'') token rootCAs = (w1, Inr rec1)"
    using assms(1) by (simp add: Renew_snd)
  have st: "store w1 out rec1 = (w2, Inr rec1)"
    using assms(2) by (simp add: store_def)
  show ?thesis
    using rr st assms(3) by (simp add: main_snd)
qed

lemma main_first_request:
  assumes "snd (Renew w uri token rootCAs verbose) = (w1, Inr rec1)"
      and "(if out \<noteq> [] then WriteFile w1 out (AccessToken rec1) else (w1, None)) = (w2, None)"
  shows "NewRequest_err w2 uri = None"
proof -
  have rr: "Renew_result w uri token rootCAs = (w1, Inr rec1)"
    using assms(1) by (simp add: Renew_snd)
  have st: "store w1 out rec1 = (w2, Inr rec1)"
    using assms(2) by (simp add: store_def)
  have "NewRequest_err w uri = None"
    using Renew_result_ok_request [of w uri token rootCAs rec1] rr by simp
  moreover have "NewRequest_err w1 = NewRequest_err w"
    using Renew_result_NewRequest [of w uri token rootCAs] rr by simp
  moreover have "NewRequest_err w2 = NewRequest_err w1"
    using store_NewRequest [of w1 out rec1] st by simp
  ultimately show ?thesis by simp
qed

lemma loop_body_ok_request:
  assumes "snd (loop_body w rurl out rootCAs verbose interval rec) = (w', Inr rec')"
  shows "NewRequest_err w' rurl = None"
proof -
  have "snd (snd (Renew (Sleep w interval) rurl (RefreshToken rec) rootCAs verbose)) = Inr rec'"
    using loop_body_record(1) [of w rurl out rootCAs verbose interval rec rec'] assms by simp
  then have "NewRequest_err (Sleep w interval) rurl = None"
    using Renew_result_ok_request [of "Sleep w interval" rurl "RefreshToken rec" rootCAs rec']
    by (simp add: Renew_snd)
  then have "NewRequest_err w rurl = None" by simp
  moreover have "NewRequest_err w' = NewRequest_err w"
    using loop_body_NewRequest [of w rurl out rootCAs verbose interval rec] assms by simp
  ultimately show ?thesis by simp
qed

text \<open>
  Claim C5, as amended. \<open>main\<close> enters the loop with the record of its first renewal in
  memory. Every pass of the loop calls \<open>Renew\<close> with the refresh token of the record in
  memory, and a pass succeeds exactly when that call and the write succeed; the record
  returned is then the one in memory for the next pass. When the refresh token names no
  existing file, the pass makes one request, which carries \<^verbatim>\<open>Authorization: Bearer\<close>
  followed by that refresh token: in any state where a request can be built for the
  URL, so in the first pass after the renewal of \<open>main\<close>, and in a pass after a pass that
  succeeded.
\<close>

theorem daemon_refresh_chain:
  "(snd (Renew w (uri @ ''/token/renew'') token rootCAs verbose) = (w1, Inr rec1)
      \<and> (if out \<noteq> [] then WriteFile w1 out (AccessToken rec1) else (w1, None)) = (w2, None)
      \<and> 0 < interval
    \<longrightarrow> snd (main n w verbose token out uri rootCAs interval)
          = snd (main_loop n w2 (uri @ ''/token/renew'') out rootCAs verbose interval rec1))
   \<and> (snd (Renew (Sleep v interval) rurl (RefreshToken rec) rootCAs verbose) = (v2, Inr rec')
      \<and> (if out \<noteq> [] then WriteFile v2 out (AccessToken rec') else (v2, None)) = (v3, None)
    \<longrightarrow> snd (loop_body v rurl out rootCAs verbose interval rec) = (v3, Inr rec'))
   \<and> (snd (snd (loop_body v rurl out rootCAs verbose interval rec)) = Inr rec'
    \<longrightarrow> snd (snd (Renew (Sleep v interval) rurl (RefreshToken rec) rootCAs verbose)) = Inr rec'
        \<and> snd (main_loop (Suc n) v rurl out rootCAs verbose interval rec)
          = snd (main_loop n (fst (snd (loop_body v rurl out rootCAs verbose interval rec)))
                  rurl out rootCAs verbose interval rec'))
   \<and> (Stat v (RefreshToken rec) \<noteq> None \<and> NewRequest_err v rurl = None
    \<longrightarrow> sent (fst (snd (loop_body v rurl out rootCAs verbose interval rec))) =
          sent v @ [(\<lparr>ClientTransport = fst (snd (Transport v rootCAs verbose))\<rparr>,
                     \<lparr>Method = ''GET'', URL = rurl,
                      Header = [''Authorization'' \<mapsto> [''Bearer '' @ RefreshToken rec],
                                ''Accept'' \<mapsto> [''application/json'']]\<rparr>)])
   \<and> (snd (Renew w (uri @ ''/token/renew'') token rootCAs verbose) = (w1, Inr rec1)
      \<and> (if out \<noteq> [] then WriteFile w1 out (AccessToken rec1) else (w1, None)) = (w2, None)
      \<and> Stat w2 (RefreshToken rec1) \<noteq> None
    \<longrightarrow> sent (fst (snd (loop_body w2 (uri @ ''/token/renew'') out rootCAs verbose interval rec1))) =
          sent w2 @ [(\<lparr>ClientTransport = fst (snd (Transport w2 rootCAs verbose))\<rparr>,
                      \<lparr>Method = ''GET'', URL = uri @ ''/token/renew'',
                       Header = [''Authorization'' \<mapsto> [''Bearer '' @ RefreshToken rec1],
                                 ''Accept'' \<mapsto> [''application/json'']]\<rparr>)])
   \<and> (snd (loop_body v rurl out rootCAs verbose interval rec) = (v', Inr rec')
      \<and> Stat v' (RefreshToken rec') \<noteq> None
    \<longrightarrow> sent (fst (snd (loop_body v' rurl out rootCAs verbose interval rec'))) =
          sent v' @ [(\<lparr>ClientTransport = fst (snd (Transport v' rootCAs verbose))\<rparr>,
                      \<lparr>Method = ''GET'', URL = rurl,
                       Header = [''Authorization'' \<mapsto> [''Bearer '' @ RefreshToken rec'],
                                 ''Accept'' \<mapsto> [''application/json'']]\<rparr>)])"
proof (intro conjI impI)
  assume "snd (Renew w (uri @ ''/token/renew'') token rootCAs verbose) = (w1, Inr rec1)
      \<and> (if out \<noteq> [] then WriteFile w1 out (AccessToken rec1) else (w1, None)) = (w2, None)
      \<and> 0 < interval"
  then show "snd (main n w verbose token out uri rootCAs interval)
          = snd (main_loop n w2 (uri @ ''/token/renew'') out rootCAs verbose interval rec1)"
    by (blast intro: main_hand_off(1))
next
  assume "snd (Renew (Sleep v interval) rurl (RefreshToken rec) rootCAs verbose) = (v2, Inr rec')
      \<and> (if out \<noteq> [] then WriteFile v2 out (AccessToken rec') else (v2, None)) = (v3, None)"
  then show "snd (loop_body v rurl out rootCAs verbose interval rec) = (v3, Inr rec')"
    by (blast intro: loop_body_success)
next
  assume "snd (snd (loop_body v rurl out rootCAs verbose interval rec)) = Inr rec'"
  then show "snd (snd (Renew (Sleep v interval) rurl (RefreshToken rec) rootCAs verbose)) = Inr rec'"
    and "snd (main_loop (Suc n) v rurl out rootCAs verbose interval rec)
          = snd (main_loop n (fst (snd (loop_body v rurl out rootCAs verbose interval rec)))
                  rurl out rootCAs verbose interval rec')"
    by (rule loop_body_record)+
next
  assume "Stat v (RefreshToken rec) \<noteq> None \<and> NewRequest_err v rurl = None"
  then show "sent (fst (snd (loop_body v rurl out rootCAs verbose interval rec))) =
          sent v @ [(\<lparr>ClientTransport = fst (snd (Transport v rootCAs verbose))\<rparr>,
                     \<lparr>Method = ''GET'', URL = rurl,
                      Header = [''Authorization'' \<mapsto> [''Bearer '' @ RefreshToken rec],
                                ''Accept'' \<mapsto> [''application/json'']]\<rparr>)]"
    by (blast intro: loop_body_request)
next
  assume "snd (Renew w (uri @ ''/token/renew'') token rootCAs verbose) = (w1, Inr rec1)
      \<and> (if out \<noteq> [] then WriteFile w1 out (AccessToken rec1) else (w1, None)) = (w2, None)
      \<and> Stat w2 (RefreshToken rec1) \<noteq> None"
  then show "sent (fst (snd (loop_body w2 (uri @ ''/token/renew'') out rootCAs verbose interval rec1))) =
          sent w2 @ [(\<lparr>ClientTransport = fst (snd (Transport w2 rootCAs verbose))\<rparr>,
                      \<lparr>Method = ''GET'', URL = uri @ ''/token/renew'',
                       Header = [''Authorization'' \<mapsto> [''Bearer '' @ RefreshToken rec1],
                                 ''Accept'' \<mapsto> [''application/json'']]\<rparr>)]"
    by (blast intro: loop_body_request main_first_request)
next
  assume a: "snd (loop_body v rurl out rootCAs verbose interval rec) = (v', Inr rec')
      \<and> Stat v' (RefreshToken rec') \<noteq> None"
  then have "NewRequest_err v' rurl = None"
    using loop_body_ok_request by blast
  then show "sent (fst (snd (loop_body v' rurl out rootCAs verbose interval rec'))) =
          sent v' @ [(\<lparr>ClientTransport = fst (snd (Transport v' rootCAs verbose))\<rparr>,
                      \<lparr>Method = ''GET'', URL = rurl,
                       Header = [''Authorization'' \<mapsto> [''Bearer '' @ RefreshToken rec'],
                                 ''Accept'' \<mapsto> [''application/json'']]\<rparr>)]"
    using a by (blast intro: loop_body_request)
qed


lemma sso_after_first:
  "snd (Renew sso ''https://sso/token/renew'' ''T0'' ''/ca'' 0) =
     (sso\<lparr>sent := [(\<lparr>ClientTransport = None\<rparr>,
         \<lparr>Method = ''GET'', URL = ''https://sso/token/renew'',
          Header = [''Authorization'' \<mapsto> [''Bearer T0''],
                    ''Accept'' \<mapsto> [''application/json'']]\<rparr>)]\<rparr>, Inr record1)"
  by (simp add: sso_def bare_def Renew_def ReadToken_def Transport_def Unmarshal_def
      zero_TokenRecord_def record1_def body1_def body2_def field_of_key_tags int64_range_def Let_def)

lemma sso_second:
  "snd (snd (loop_body
     (sso\<lparr>sent := [(\<lparr>ClientTransport = None\<rparr>,
         \<lparr>Method = ''GET'', URL = ''https://sso/token/renew'',
          Header = [''Authorization'' \<mapsto> [''Bearer T0''],
                    ''Accept'' \<mapsto> [''application/json'']]\<rparr>)]\<rparr>)
     ''https://sso/token/renew'' [] ''/ca'' 0 600 record1)) = Inr record2"
  by (simp add: sso_def bare_def loop_body_def Sleep_def printRecord_def
      Renew_def ReadToken_def Transport_def Unmarshal_def
      zero_TokenRecord_def record1_def record2_def body1_def body2_def field_of_key_tags
      int64_range_def Let_def)

theorem daemon_refresh_chain_witness:
  "snd (snd (Renew sso ''https://sso/token/renew'' ''T0'' ''/ca'' 0)) = Inr record1
   \<and> RefreshToken record1 = ''R1''
   \<and> Stat sso ''R1'' \<noteq> None
   \<and> sent (fst (snd (main (Suc 0) sso 0 ''T0'' [] ''https://sso'' ''/ca'' 600))) =
       [(\<lparr>ClientTransport = None\<rparr>,
         \<lparr>Method = ''GET'', URL = ''https://sso/token/renew'',
          Header = [''Authorization'' \<mapsto> [''Bearer T0''],
                    ''Accept'' \<mapsto> [''application/json'']]\<rparr>),
        (\<lparr>ClientTransport = None\<rparr>,
         \<lparr>Method = ''GET'', URL = ''https://sso/token/renew'',
          Header = [''Authorization'' \<mapsto> [''Bearer R1''],
                    ''Accept'' \<mapsto> [''application/json'']]\<rparr>)]
   \<and> snd (snd (main (Suc 0) sso 0 ''T0'' [] ''https://sso'' ''/ca'' 600)) = Running record2"
proof -
  let ?rurl = "''https://sso/token/renew''"
  let ?w1 = "sso\<lparr>sent := [(\<lparr>ClientTransport = None\<rparr>,
         \<lparr>Method = ''GET'', URL = ?rurl,
          Header = [''Authorization'' \<mapsto> [''Bearer T0''],
                    ''Accept'' \<mapsto> [''application/json'']]\<rparr>)]\<rparr>"
  let ?LB = "loop_body ?w1 ?rurl [] ''/ca'' 0 600 record1"
  note chain = daemon_refresh_chain [where w = sso and uri = "''https://sso''" and token = "''T0''"
      and rootCAs = "''/ca''" and verbose = 0 and ?w1.0 = ?w1 and ?rec1.0 = record1 and out = "[]"
      and ?w2.0 = ?w1 and interval = 600 and n = "Suc 0" and v = ?w1 and rurl = ?rurl
      and rec = record1 and rec' = record2]
  have first: "snd (Renew sso (''https://sso'' @ ''/token/renew'') ''T0'' ''/ca'' 0) = (?w1, Inr record1)"
    using sso_after_first by simp
  have r1: "RefreshToken record1 = ''R1''" by (simp add: record1_def)
  have st: "Stat ?w1 (RefreshToken record1) \<noteq> None" by (simp add: r1 sso_def bare_def)
  have tr: "fst (snd (Transport ?w1 ''/ca'' 0)) = None"
    by (simp add: sso_def bare_def Transport_def Let_def)
  have hand: "snd (main (Suc 0) sso 0 ''T0'' [] ''https://sso'' ''/ca'' 600)
               = snd (main_loop (Suc 0) ?w1 ?rurl [] ''/ca'' 0 600 record1)"
    using chain first by simp
  have pass0: "snd (main_loop (Suc 0) ?w1 ?rurl [] ''/ca'' 0 600 record1)
               = snd (main_loop 0 (fst (snd ?LB)) ?rurl [] ''/ca'' 0 600 record2)"
    using daemon_refresh_chain [where v = ?w1 and rurl = ?rurl and out = "[]" and rootCAs = "''/ca''"
        and verbose = 0 and interval = 600 and rec = record1 and rec' = record2 and n = 0]
      sso_second by simp
  have sent: "sent (fst (snd ?LB)) = sent ?w1 @ [(\<lparr>ClientTransport = None\<rparr>,
         \<lparr>Method = ''GET'', URL = ?rurl,
          Header = [''Authorization'' \<mapsto> [''Bearer R1''],
                    ''Accept'' \<mapsto> [''application/json'']]\<rparr>)]"
    using chain first st by (simp add: tr r1)
  show ?thesis
    using hand pass0 sent first r1 by (simp add: sso_def bare_def)
qed

text \<open>
  Claim C5 as it is written fails: \<open>Renew\<close> passes its token through \<open>ReadToken\<close>, so a
  refresh token that names an existing file is replaced by the contents of the file.
  Here the refresh token is \<^verbatim>\<open>R1\<close>, a file of that name holds \<^verbatim>\<open>X\<close>, and the request
  carries \<^verbatim>\<open>Bearer X\<close>.
\<close>

theorem loop_body_token_file_counterexample:
  "RefreshToken record1 = ''R1''
   \<and> Stat sso_R1_file ''R1'' = None
   \<and> sent (fst (snd (loop_body sso_R1_file ''https://sso/token/renew'' [] ''/ca'' 0 600 record1))) =
       [(\<lparr>ClientTransport = None\<rparr>,
         \<lparr>Method = ''GET'', URL = ''https://sso/token/renew'',
          Header = [''Authorization'' \<mapsto> [''Bearer X''],
                    ''Accept'' \<mapsto> [''application/json'']]\<rparr>)]"
  by (simp add: sso_R1_file_def sso_def bare_def loop_body_def Sleep_def LF_def
      Renew_def ReadToken_def Transport_def Unmarshal_def
      zero_TokenRecord_def record1_def body1_def body2_def Let_def)

text \<open>
  Claim C8. With an output path, after a renewal that succeeded (the record was
  obtained and written: a failed write ends the process), the output file holds
  exactly the access token of the record, whatever it held before: after a pass of the
  loop, whenever the daemon is between two passes, and when a single run exits.
\<close>

theorem output_file_holds_access_token:
  assumes "out \<noteq> []"
  shows "(snd (loop_body w rurl out rootCAs verbose interval rec) = (w', Inr rec')
            \<longrightarrow> ReadFile w' out = (AccessToken rec', None))
       \<and> (snd (main n w verbose token out uri rootCAs interval) = (w', Running rec')
            \<longrightarrow> ReadFile w' out = (AccessToken rec', None))
       \<and> (snd (main n w verbose token out uri rootCAs interval) = (w', Exit 0)
            \<longrightarrow> (\<exists>rec0. snd (snd (Renew w (uri @ ''/token/renew'') token rootCAs verbose)) = Inr rec0
                        \<and> ReadFile w' out = (AccessToken rec0, None)))"
proof (intro conjI impI)
  assume "snd (loop_body w rurl out rootCAs verbose interval rec) = (w', Inr rec')"
  then show "ReadFile w' out = (AccessToken rec', None)"
    using loop_body_file assms by blast
next
  obtain w1 res where rr: "Renew_result w (uri @ ''/token/renew'') token rootCAs = (w1, res)"
    by (cases "Renew_result w (uri @ ''/token/renew'') token rootCAs")
  {
    assume m: "snd (main n w verbose token out uri rootCAs interval) = (w', Running rec')"
    then obtain rec0 where res: "res = Inr rec0"
      using rr by (cases res) (auto simp: main_snd)
    obtain w2 r2 where st: "store w1 out rec0 = (w2, r2)" by (cases "store w1 out rec0")
    from m rr res st obtain rec1 where r2: "r2 = Inr rec1"
      by (cases r2) (auto simp: main_snd)
    have f2: "ReadFile w2 out = (AccessToken rec0, None)"
      using store_ok st r2 assms by blast
    have "interval > 0" and "snd (main_loop n w2 (uri @ ''/token/renew'') out rootCAs verbose interval rec0)
            = (w', Running rec')"
      using m rr res st r2 by (auto simp: main_snd split: if_splits)
    then show "ReadFile w' out = (AccessToken rec', None)"
      using main_loop_file f2 assms by blast
  }
  {
    assume m: "snd (main n w verbose token out uri rootCAs interval) = (w', Exit 0)"
    then obtain rec0 where res: "res = Inr rec0"
      using rr by (cases res) (auto simp: main_snd)
    obtain w2 r2 where st: "store w1 out rec0 = (w2, r2)" by (cases "store w1 out rec0")
    from m rr res st obtain rec1 where r2: "r2 = Inr rec1"
      by (cases r2) (auto simp: main_snd)
    have f2: "ReadFile w2 out = (AccessToken rec0, None)"
      using store_ok st r2 assms by blast
    have "w' = w2"
      using m rr res st r2 main_loop_no_exit [of n w2 "uri @ ''/token/renew''" out rootCAs verbose interval rec0 0]
      by (auto simp: main_snd split: if_splits)
    moreover have "snd (snd (Renew w (uri @ ''/token/renew'') token rootCAs verbose)) = Inr rec0"
      using rr res by (simp add: Renew_snd)
    ultimately show "\<exists>rec0. snd (snd (Renew w (uri @ ''/token/renew'') token rootCAs verbose)) = Inr rec0
                        \<and> ReadFile w' out = (AccessToken rec0, None)"
      using f2 by blast
  }
qed

lemma sso_daemon_run:
  "snd (snd (main 1 sso 0 ''T0'' ''/tmp/access.token'' ''https://sso'' ''/ca'' 600)) = Running record2"
  by (simp add: sso_def bare_def main_def loop_body_def Sleep_def WriteFile_def printRecord_def
      Renew_def ReadToken_def Transport_def Unmarshal_def
      zero_TokenRecord_def record1_def record2_def body1_def body2_def field_of_key_tags
      int64_range_def Let_def)

lemma sso_single_run:
  "snd (snd (main 1 sso 0 ''T0'' ''/tmp/access.token'' ''https://sso'' ''/ca'' 0)) = Exit 0"
  by (simp add: sso_def bare_def main_def WriteFile_def printRecord_def
      Renew_def ReadToken_def Transport_def Unmarshal_def
      zero_TokenRecord_def body1_def body2_def field_of_key_tags
      int64_range_def Let_def)

theorem output_file_holds_access_token_witness:
  "''/tmp/access.token'' \<noteq> []
   \<and> snd (snd (main 1 sso 0 ''T0'' ''/tmp/access.token'' ''https://sso'' ''/ca'' 600)) = Running record2
   \<and> ReadFile (fst (snd (main 1 sso 0 ''T0'' ''/tmp/access.token'' ''https://sso'' ''/ca'' 600)))
        ''/tmp/access.token'' = (''A2'', None)
   \<and> snd (snd (main 1 sso 0 ''T0'' ''/tmp/access.token'' ''https://sso'' ''/ca'' 0)) = Exit 0
   \<and> ReadFile (fst (snd (main 1 sso 0 ''T0'' ''/tmp/access.token'' ''https://sso'' ''/ca'' 0)))
        ''/tmp/access.token'' = (''A1'', None)"
proof -
  let ?out = "''/tmp/access.token''"
  let ?daemon = "main 1 sso 0 ''T0'' ?out ''https://sso'' ''/ca'' 600"
  let ?single = "main 1 sso 0 ''T0'' ?out ''https://sso'' ''/ca'' 0"
  have out: "?out \<noteq> []" by simp
  have d: "snd ?daemon = (fst (snd ?daemon), Running record2)"
    using sso_daemon_run by (simp add: prod_eq_iff)
  have s: "snd ?single = (fst (snd ?single), Exit 0)"
    using sso_single_run by (simp add: prod_eq_iff)
  have "ReadFile (fst (snd ?daemon)) ?out = (AccessToken record2, None)"
    using output_file_holds_access_token [OF out] d by blast
  moreover obtain rec0 where
    "snd (snd (Renew sso (''https://sso'' @ ''/token/renew'') ''T0'' ''/ca'' 0)) = Inr rec0"
    "ReadFile (fst (snd ?single)) ?out = (AccessToken rec0, None)"
    using output_file_holds_access_token [OF out] s by blast
  moreover have "snd (snd (Renew sso (''https://sso'' @ ''/token/renew'') ''T0'' ''/ca'' 0)) = Inr record1"
    using sso_first by simp
  ultimately show ?thesis
    using sso_daemon_run sso_single_run by (simp add: record1_def record2_def)
qed

end
